theory Spec2Isabelle
  imports Main "HOL-Library.Sublist"
begin

section \<open>Common Python notions\<close>

text \<open>
  The exceptions the modelled functions can raise on their own (none of them is caught
  inside the functions that raise them), and the records handed to the \<open>logging\<close> module:
  a level, the format string and its arguments.
\<close>

datatype py_error = AttributeError | TypeError | IndexError

datatype level = DEBUG | INFO | ERROR | FATAL

datatype oid_arg = OStr string | OInt int

text \<open>
  Datetimes are timezone-aware instants, counted in microseconds; a \<open>timedelta\<close> is a
  number of microseconds.
\<close>

type_synonym datetime = int
type_synonym timedelta = int

datatype log_arg = Str string | Num int | Time datetime | Obj "oid_arg list"

datatype log_record = Log level string "log_arg list"

fun levelname :: "log_record \<Rightarrow> level" where
  "levelname (Log l _ _) = l"

definition timedelta_seconds :: "int \<Rightarrow> timedelta" where
  "timedelta_seconds s = s * 1000000"

text \<open>Truthiness of an optional string, as \<open>if args.config_file\<close> tests it.\<close>

fun truthy_str :: "string option \<Rightarrow> bool" where
  "truthy_str None = False"
| "truthy_str (Some s) = (s \<noteq> [])"

text \<open>Decimal rendering of an integer, as an f-string does it.\<close>

definition digit :: "nat \<Rightarrow> char" where
  "digit d = char_of (48 + d)"

function str_nat :: "nat \<Rightarrow> string" where
  "str_nat n = (if n < 10 then [digit n] else str_nat (n div 10) @ [digit (n mod 10)])"
  by pat_completeness auto
termination
  by (relation "measure (\<lambda>n. n)") auto

definition str_int :: "int \<Rightarrow> string" where
  "str_int i = (if i < 0 then CHR ''-'' # str_nat (nat (- i)) else str_nat (nat i))"

section \<open>zino.py: the state dump job and its rescheduling\<close>

definition STATE_DUMP_JOB_ID :: string where
  "STATE_DUMP_JOB_ID = ''zino.dump_state''"

definition MINIMUM_STATE_DUMP_INTERVAL :: timedelta where
  "MINIMUM_STATE_DUMP_INTERVAL = timedelta_seconds 10"

text \<open>
  A scheduled job holds its next run time, which is \<open>None\<close> while the job is paused.
  The scheduler is its job table (job id to job) together with the log written so far.
\<close>

record job =
  next_run_time :: "datetime option"

record scheduler =
  jobs :: "string \<rightharpoonup> job"
  sched_log :: "log_record list"

definition get_job :: "scheduler \<Rightarrow> string \<Rightarrow> job option" where
  "get_job s job_id = jobs s job_id"

definition modify :: "string \<Rightarrow> datetime \<Rightarrow> scheduler \<Rightarrow> scheduler" where
  "modify job_id t s =
     (case jobs s job_id of
        None \<Rightarrow> s
      | Some j \<Rightarrow> s\<lparr>jobs := (jobs s)(job_id \<mapsto> j\<lparr>next_run_time := Some t\<rparr>)\<rparr>)"

text \<open>
  \<open>reschedule_dump_state\<close>: \<open>now\<close> is the clock reading of \<open>datetime.now\<close>. A missing job
  makes \<open>job.next_run_time\<close> an AttributeError on \<open>None\<close>; a paused job makes the
  comparison of \<open>None\<close> with a datetime a TypeError.
\<close>

definition reschedule_dump_state :: "datetime \<Rightarrow> string \<Rightarrow> scheduler \<Rightarrow> py_error + scheduler" where
  "reschedule_dump_state now log_msg s =
     (case get_job s STATE_DUMP_JOB_ID of
        None \<Rightarrow> Inl AttributeError
      | Some j \<Rightarrow>
          (let next_run = now + MINIMUM_STATE_DUMP_INTERVAL in
           case next_run_time j of
             None \<Rightarrow> Inl TypeError
           | Some t \<Rightarrow>
               if t > next_run
               then Inr (modify STATE_DUMP_JOB_ID next_run
                      (s\<lparr>sched_log := sched_log s @
                         [Log DEBUG ''%s, Rescheduling state dump from %s to %s''
                            [Str log_msg, Time t, Time next_run]]\<rparr>))
               else Inr s))"

text \<open>The two observers; an event is represented by its id.\<close>

definition reschedule_dump_state_on_commit :: "datetime \<Rightarrow> int \<Rightarrow> scheduler \<Rightarrow> py_error + scheduler" where
  "reschedule_dump_state_on_commit now new_event_id s =
     reschedule_dump_state now (''event '' @ str_int new_event_id @ '' committed'') s"

definition reschedule_dump_state_on_pm_change :: "datetime \<Rightarrow> scheduler \<Rightarrow> py_error + scheduler" where
  "reschedule_dump_state_on_pm_change now s =
     reschedule_dump_state now ''planned maintenances changed'' s"

text \<open>
  A mutation notification is one of the two observer calls; a sequence of notifications,
  each with the clock reading at its arrival, is delivered in order and stops at the
  first exception.
\<close>

datatype notification = Commit int | PmChange

fun notify :: "datetime \<Rightarrow> notification \<Rightarrow> scheduler \<Rightarrow> py_error + scheduler" where
  "notify now (Commit event_id) s = reschedule_dump_state_on_commit now event_id s"
| "notify now PmChange s = reschedule_dump_state_on_pm_change now s"

fun notify_all :: "(datetime \<times> notification) list \<Rightarrow> scheduler \<Rightarrow> py_error + scheduler" where
  "notify_all [] s = Inr s"
| "notify_all ((now, n) # ns) s =
     (case notify now n s of Inl e \<Rightarrow> Inl e | Inr s' \<Rightarrow> notify_all ns s')"

text \<open>The next run time of the dump job in a result, when there is one.\<close>

definition dump_next_run :: "py_error + scheduler \<Rightarrow> datetime option" where
  "dump_next_run r =
     (case r of
        Inl _ \<Rightarrow> None
      | Inr s \<Rightarrow> (case jobs s STATE_DUMP_JOB_ID of None \<Rightarrow> None | Some j \<Rightarrow> next_run_time j))"

definition dump_scheduled_at :: "datetime \<Rightarrow> scheduler" where
  "dump_scheduled_at t =
     \<lparr>jobs = [STATE_DUMP_JOB_ID \<mapsto> \<lparr>next_run_time = Some t\<rparr>], sched_log = []\<rparr>"

section \<open>zino.py: loading the configuration\<close>

definition DEFAULT_CONFIG_FILE :: string where
  "DEFAULT_CONFIG_FILE = ''zino.toml''"

record args =
  config_file :: "string option"
  polldevs :: "string option"

text \<open>
  \<open>read_configuration\<close> belongs to \<open>zino.config\<close> and is a parameter here: given the file
  name and the pollfile it returns a configuration or raises one of the three exceptions
  that \<open>load_config\<close> handles (a ValidationError carries its text).
\<close>

datatype 'c read_result =
    Configuration 'c
  | OSError
  | InvalidConfigurationError
  | ValidationError string

text \<open>What a call does to the process: it returns a value, or \<open>sys.exit\<close> ends the process.\<close>

datatype 'a outcome = Return 'a | SystemExit int

definition or_default :: "string option \<Rightarrow> string \<Rightarrow> string" where
  "or_default a d = (case a of None \<Rightarrow> d | Some s \<Rightarrow> if s \<noteq> [] then s else d)"

definition load_config ::
  "(string \<Rightarrow> string option \<Rightarrow> 'c read_result) \<Rightarrow> args \<Rightarrow> log_record list
     \<Rightarrow> log_record list \<times> 'c option outcome" where
  "load_config read_configuration a lg =
     (case read_configuration (or_default (config_file a) DEFAULT_CONFIG_FILE) (polldevs a) of
        Configuration c \<Rightarrow> (lg, Return (Some c))
      | OSError \<Rightarrow>
          (case config_file a of
             None \<Rightarrow> (lg, Return None)
           | Some f \<Rightarrow>
               if truthy_str (config_file a)
               then (lg @ [Log FATAL (''No config file with the name '' @ f @ '' found.'') []],
                     SystemExit 1)
               else (lg, Return None))
      | InvalidConfigurationError \<Rightarrow>
          (lg @ [Log FATAL (''Configuration file with the name ''
                   @ or_default (config_file a) DEFAULT_CONFIG_FILE @ '' is invalid TOML.'') []],
           SystemExit 1)
      | ValidationError e \<Rightarrow> (lg @ [Log FATAL e []], SystemExit 1))"

text \<open>
  The first steps of \<open>main\<close>: \<open>state.config\<close> (initially the built-in default
  configuration) is replaced only when \<open>load_config\<close> returned a configuration; the
  result is the value of \<open>state.config\<close> with which \<open>main\<close> goes on.
\<close>

definition main_config ::
  "(string \<Rightarrow> string option \<Rightarrow> 'c read_result) \<Rightarrow> args \<Rightarrow> 'c \<Rightarrow> log_record list
     \<Rightarrow> log_record list \<times> 'c outcome" where
  "main_config read_configuration a state_config lg =
     (case load_config read_configuration a lg of
        (lg', SystemExit n) \<Rightarrow> (lg', SystemExit n)
      | (lg', Return None) \<Rightarrow> (lg', Return state_config)
      | (lg', Return (Some config)) \<Rightarrow> (lg', Return config))"

text \<open>A call ended the process with code 1 after adding one record of level FATAL to the log.\<close>

definition fatal_exit :: "log_record list \<Rightarrow> log_record list \<times> 'a outcome \<Rightarrow> bool" where
  "fatal_exit lg r =
     (snd r = SystemExit 1 \<and> length (fst r) = Suc (length lg) \<and> take (length lg) (fst r) = lg
      \<and> levelname (last (fst r)) = FATAL)"

text \<open>
  A file system for examples: the default file \<open>zino.toml\<close> and \<open>absent.toml\<close> do not
  exist, \<open>broken.toml\<close> is not TOML, \<open>wrong.toml\<close> fails validation, \<open>good.toml\<close> loads.
\<close>

definition example_read :: "string \<Rightarrow> string option \<Rightarrow> string read_result" where
  "example_read name pollfile =
     (if name = ''good.toml'' then Configuration ''good''
      else if name = ''broken.toml'' then InvalidConfigurationError
      else if name = ''wrong.toml'' then ValidationError ''1 validation error for Configuration''
      else OSError)"

definition no_args :: args where
  "no_args = \<lparr>config_file = None, polldevs = None\<rparr>"

definition with_config_file :: "string \<Rightarrow> args" where
  "with_config_file name = \<lparr>config_file = Some name, polldevs = None\<rparr>"

section \<open>zino.py: switching to another user\<close>

record struct_passwd =
  pw_uid :: nat
  pw_gid :: nat

record struct_group =
  gr_gid :: nat
  gr_mem :: "string list"

datatype syscall = Setgid nat | Setgroups "nat list" | Setuid nat

text \<open>
  The process: its identity, the identity-changing system calls it has issued (oldest
  first, failed ones included) and its log.
\<close>

record process =
  uid :: nat
  gid :: nat
  groups :: "nat list"
  syscalls :: "syscall list"
  proc_log :: "log_record list"

text \<open>
  The operating system: the user database behind \<open>pwd.getpwnam\<close> (\<open>None\<close> is its
  KeyError), the group database behind \<open>grp.getgrall\<close>, and the kernel's decision on a
  system call in a given process state (\<open>Some\<close> text is the OSError raised).
\<close>

record os_env =
  getpwnam :: "string \<Rightarrow> struct_passwd option"
  getgrall :: "struct_group list"
  oserror :: "process \<Rightarrow> syscall \<Rightarrow> string option"

fun effect :: "syscall \<Rightarrow> process \<Rightarrow> process" where
  "effect (Setgid g) p = p\<lparr>gid := g\<rparr>"
| "effect (Setgroups gs) p = p\<lparr>groups := gs\<rparr>"
| "effect (Setuid u) p = p\<lparr>uid := u\<rparr>"

definition os_call :: "os_env \<Rightarrow> syscall \<Rightarrow> process \<Rightarrow> string option \<times> process" where
  "os_call env c p =
     (case oserror env p c of
        Some error \<Rightarrow> (Some error, p\<lparr>syscalls := syscalls p @ [c]\<rparr>)
      | None \<Rightarrow> (None, (effect c p)\<lparr>syscalls := syscalls p @ [c]\<rparr>))"

definition log_to :: "log_record \<Rightarrow> process \<Rightarrow> process" where
  "log_to r p = p\<lparr>proc_log := proc_log p @ [r]\<rparr>"

definition failed_changing :: "nat \<Rightarrow> nat \<Rightarrow> struct_passwd \<Rightarrow> string \<Rightarrow> process \<Rightarrow> process" where
  "failed_changing old_uid old_gid user error p =
     log_to (Log ERROR ''Failed changing uid/gid from %d/%d to %d/%d (%s)''
       [Num (int old_uid), Num (int old_gid), Num (int (pw_uid user)), Num (int (pw_gid user)),
        Str error]) p"

definition supplementary_gids :: "os_env \<Rightarrow> string \<Rightarrow> nat list" where
  "supplementary_gids env username =
     map gr_gid (filter (\<lambda>g. username \<in> set (gr_mem g)) (getgrall env))"

definition switch_to_user :: "os_env \<Rightarrow> string \<Rightarrow> process \<Rightarrow> bool \<times> process" where
  "switch_to_user env username p =
     (let old_uid = uid p; old_gid = gid p in
      case getpwnam env username of
        None \<Rightarrow> (False, log_to (Log ERROR ''Could not find user %s'' [Str username]) p)
      | Some user \<Rightarrow>
          if old_uid = pw_uid user
          then (True, log_to (Log DEBUG ''Already running as uid/gid %d/%d.''
                  [Num (int old_uid), Num (int old_gid)]) p)
          else
            (case os_call env (Setgid (pw_gid user)) p of
               (Some error, p1) \<Rightarrow> (False, failed_changing old_uid old_gid user error p1)
             | (None, p1) \<Rightarrow>
                 (let gids = supplementary_gids env username in
                  case (if gids \<noteq> [] then os_call env (Setgroups gids) p1 else (None, p1)) of
                    (Some error, p2) \<Rightarrow> (False, failed_changing old_uid old_gid user error p2)
                  | (None, p2) \<Rightarrow>
                      (case os_call env (Setuid (pw_uid user)) p2 of
                         (Some error, p3) \<Rightarrow> (False, failed_changing old_uid old_gid user error p3)
                       | (None, p3) \<Rightarrow>
                           (True,
                            log_to (Log DEBUG ''uid/gid changed from %d/%d to %d/%d.''
                              [Num (int old_uid), Num (int old_gid), Num (int (pw_uid user)),
                               Num (int (pw_gid user))])
                             (log_to (Log INFO ''Dropped privileges to user %s'' [Str username])
                                p3))))))"

text \<open>A kernel that lets only uid 0 change identity, and a small user and group database.\<close>

definition root_only :: "process \<Rightarrow> syscall \<Rightarrow> string option" where
  "root_only p c = (if uid p = 0 then None else Some ''[Errno 1] Operation not permitted'')"

definition example_env :: os_env where
  "example_env =
     \<lparr>getpwnam = [''zino'' \<mapsto> \<lparr>pw_uid = 1000, pw_gid = 1000\<rparr>,
                  ''netops'' \<mapsto> \<lparr>pw_uid = 1001, pw_gid = 1001\<rparr>],
      getgrall = [\<lparr>gr_gid = 0, gr_mem = [''root'']\<rparr>,
                  \<lparr>gr_gid = 1000, gr_mem = []\<rparr>,
                  \<lparr>gr_gid = 20, gr_mem = [''netops'']\<rparr>,
                  \<lparr>gr_gid = 1001, gr_mem = []\<rparr>,
                  \<lparr>gr_gid = 44, gr_mem = [''root'', ''netops'']\<rparr>],
      oserror = root_only\<rparr>"

definition root_process :: process where
  "root_process = \<lparr>uid = 0, gid = 0, groups = [0], syscalls = [], proc_log = []\<rparr>"











section \<open>snmp.py: the engine of the current thread\<close>

text \<open>
  \<open>_local\<close> is thread-local storage: each thread sees its own \<open>snmp_engine\<close> attribute.
  An engine is identified by its allocation number: \<open>SnmpEngine()\<close> makes a new object,
  distinct from every object made before. The module state also holds the module's log.
\<close>

type_synonym thread_id = nat
type_synonym engine = nat

record snmp_module =
  snmp_engine :: "thread_id \<rightharpoonup> engine"
  constructed :: nat
  snmp_log :: "log_record list"

definition SnmpEngine :: "snmp_module \<Rightarrow> engine \<times> snmp_module" where
  "SnmpEngine m = (constructed m, m\<lparr>constructed := Suc (constructed m)\<rparr>)"

definition get_engine :: "thread_id \<Rightarrow> snmp_module \<Rightarrow> engine \<times> snmp_module" where
  "get_engine tid m =
     (case snmp_engine m tid of
        Some e \<Rightarrow> (e, m)
      | None \<Rightarrow>
          (let (e, m') = SnmpEngine m
           in (e, m'\<lparr>snmp_engine := (snmp_engine m')(tid \<mapsto> e)\<rparr>)))"

definition initial_module :: snmp_module where
  "initial_module = \<lparr>snmp_engine = Map.empty, constructed = 0, snmp_log = []\<rparr>"

text \<open>The module state after the threads of a list have called \<open>_get_engine\<close>, in that order.\<close>

fun after_calls :: "thread_id list \<Rightarrow> snmp_module \<Rightarrow> snmp_module" where
  "after_calls [] m = m"
| "after_calls (tid # tids) m = after_calls tids (snd (get_engine tid m))"

text \<open>
  Invariants of the module state: every stored engine has been constructed, and no
  engine is stored for two threads.
\<close>

definition allocated :: "snmp_module \<Rightarrow> bool" where
  "allocated m = (\<forall>t e. snmp_engine m t = Some e \<longrightarrow> e < constructed m)"

definition unshared :: "snmp_module \<Rightarrow> bool" where
  "unshared m =
     (\<forall>t1 t2 e. snmp_engine m t1 = Some e \<longrightarrow> snmp_engine m t2 = Some e \<longrightarrow> t1 = t2)"

section \<open>snmp.py: the SNMP session of a device\<close>

record poll_device =
  address :: string
  port :: nat
  community :: string
  hcounters :: bool

record SNMP =
  device :: poll_device

definition mp_model :: "SNMP \<Rightarrow> int" where
  "mp_model self = (if hcounters (device self) then 1 else 0)"

text \<open>
  The specification's name for the selector: the legacy variant is SNMP v1, which PySNMP
  numbers \<open>mpModel\<close> 0, the extended one is SNMP v2c, \<open>mpModel\<close> 1.
\<close>

datatype version = LEGACY | EXTENDED

definition select_version_spec :: "bool \<Rightarrow> version" where
  "select_version_spec high_capacity_counters = (if high_capacity_counters then EXTENDED else LEGACY)"

definition version_of_mpModel :: "int \<Rightarrow> version option" where
  "version_of_mpModel n = (if n = 0 then Some LEGACY else if n = 1 then Some EXTENDED else None)"

text \<open>
  The response of \<open>getCmd\<close>: the error indication (\<open>None\<close> or an object, which is truthy),
  the error status and error index (integers, truthy when not 0) and the variable
  bindings, each an object identity with its value.
\<close>

record 'v response =
  error_indication :: "string option"
  error_status :: int
  error_index :: int
  var_binds :: "(oid_arg list \<times> 'v) list"

text \<open>Python's list indexing: a negative index counts from the end, out of range raises.\<close>

definition py_index :: "'a list \<Rightarrow> int \<Rightarrow> py_error + 'a" where
  "py_index xs i =
     (let n = int (length xs); k = (if i < 0 then n + i else i)
      in if 0 \<le> k \<and> k < n then Inr (xs ! nat k) else Inl IndexError)"

text \<open>
  The second argument of the error log call,
  \<open>error_index and query[int(error_index) - 1][0] or "?"\<close>; an object identity is truthy.
\<close>

definition culprit :: "oid_arg list list \<Rightarrow> int \<Rightarrow> py_error + log_arg" where
  "culprit query idx =
     (if idx \<noteq> 0
      then (case py_index query (idx - 1) of Inl e \<Rightarrow> Inl e | Inr obj \<Rightarrow> Inr (Obj obj))
      else Inr (Str ''?''))"

text \<open>
  \<open>SNMP.get\<close>. The awaited \<open>getCmd\<close> and \<open>prettyPrint\<close> of an error status belong to
  PySNMP and are parameters: \<open>getCmd\<close> maps the engine, the community with its
  \<open>mpModel\<close>, the transport target and the query to the response. The result is the new
  module state with an exception or the returned value (\<open>None\<close> when the method returns
  nothing).
\<close>

definition get ::
  "(engine \<Rightarrow> string \<times> int \<Rightarrow> string \<times> nat \<Rightarrow> oid_arg list list \<Rightarrow> 'v response)
     \<Rightarrow> (int \<Rightarrow> string) \<Rightarrow> thread_id \<Rightarrow> SNMP \<Rightarrow> oid_arg list \<Rightarrow> snmp_module
     \<Rightarrow> snmp_module \<times> (py_error + 'v option)" where
  "get getCmd prettyPrint tid self object m =
     (let query = [object];
          (engine, m1) = get_engine tid m;
          r = getCmd engine (community (device self), mp_model self)
                (address (device self), port (device self)) query
      in case error_indication r of
           Some ind \<Rightarrow> (m1\<lparr>snmp_log := snmp_log m1 @ [Log ERROR ind []]\<rparr>, Inr None)
         | None \<Rightarrow>
             if error_status r \<noteq> 0
             then (case culprit query (error_index r) of
                     Inl e \<Rightarrow> (m1, Inl e)
                   | Inr at \<Rightarrow>
                       (m1\<lparr>snmp_log := snmp_log m1 @
                           [Log ERROR ''%s at %s'' [Str (prettyPrint (error_status r)), at]]\<rparr>,
                        Inr None))
             else (case var_binds r of
                     [] \<Rightarrow> (m1, Inr None)
                   | (obj, val) # _ \<Rightarrow> (m1, Inr (Some val))))"

text \<open>Example devices and agents: one answers genErr (5) with a given error index and
  given variable bindings, one answers without error and without variable bindings.\<close>

definition example_device :: "bool \<Rightarrow> string \<Rightarrow> poll_device" where
  "example_device hc addr = \<lparr>address = addr, port = 161, community = ''public'', hcounters = hc\<rparr>"

definition gen_err_at ::
  "int \<Rightarrow> (oid_arg list \<times> 'v) list \<Rightarrow> engine \<Rightarrow> string \<times> int \<Rightarrow> string \<times> nat
     \<Rightarrow> oid_arg list list \<Rightarrow> 'v response" where
  "gen_err_at idx vbs engine auth target query =
     \<lparr>error_indication = None, error_status = 5, error_index = idx, var_binds = vbs\<rparr>"

definition empty_response ::
  "engine \<Rightarrow> string \<times> int \<Rightarrow> string \<times> nat \<Rightarrow> oid_arg list list \<Rightarrow> int response" where
  "empty_response engine auth target query =
     \<lparr>error_indication = None, error_status = 0, error_index = 0, var_binds = []\<rparr>"

section \<open>Properties of the rescheduling\<close>

lemma reschedule_next_run:
  assumes "jobs s STATE_DUMP_JOB_ID = Some j" and "next_run_time j = Some t"
  shows "dump_next_run (reschedule_dump_state now msg s)
           = Some (min t (now + MINIMUM_STATE_DUMP_INTERVAL))"
  using assms
  by (simp add: reschedule_dump_state_def get_job_def modify_def dump_next_run_def Let_def min_def)

lemma reschedule_unchanged:
  assumes "jobs s STATE_DUMP_JOB_ID = Some j" and "next_run_time j = Some t"
    and "t \<le> now + MINIMUM_STATE_DUMP_INTERVAL"
  shows "reschedule_dump_state now msg s = Inr s"
  using assms by (simp add: reschedule_dump_state_def get_job_def Let_def)

text \<open>
  C1. With \<open>candidate = now + MINIMUM_STATE_DUMP_INTERVAL\<close>: a next run time strictly
  later than the candidate is rewritten to exactly the candidate, a next run time at or
  before the candidate leaves the scheduler as it was; so the new next run time is never
  later than the old one, and when it differs from the old one it is not earlier than
  the candidate.
\<close>

theorem reschedule_dump_state_debounce:
  assumes "jobs s STATE_DUMP_JOB_ID = Some j" and "next_run_time j = Some t"
  shows "(t > now + MINIMUM_STATE_DUMP_INTERVAL \<longrightarrow>
            dump_next_run (reschedule_dump_state now msg s)
              = Some (now + MINIMUM_STATE_DUMP_INTERVAL))
       \<and> (t \<le> now + MINIMUM_STATE_DUMP_INTERVAL \<longrightarrow>
            reschedule_dump_state now msg s = Inr s
          \<and> dump_next_run (reschedule_dump_state now msg s) = Some t)
       \<and> (\<exists>t'. dump_next_run (reschedule_dump_state now msg s) = Some t'
              \<and> t' \<le> t
              \<and> (t' \<noteq> t \<longrightarrow> now + MINIMUM_STATE_DUMP_INTERVAL \<le> t'))"
proof -
  have nr: "dump_next_run (reschedule_dump_state now msg s)
              = Some (min t (now + MINIMUM_STATE_DUMP_INTERVAL))"
    using assms by (rule reschedule_next_run)
  have a: "t > now + MINIMUM_STATE_DUMP_INTERVAL \<longrightarrow>
            dump_next_run (reschedule_dump_state now msg s)
              = Some (now + MINIMUM_STATE_DUMP_INTERVAL)"
    using nr by (simp add: min_def)
  have b: "t \<le> now + MINIMUM_STATE_DUMP_INTERVAL \<longrightarrow>
            reschedule_dump_state now msg s = Inr s
          \<and> dump_next_run (reschedule_dump_state now msg s) = Some t"
  proof
    assume le: "t \<le> now + MINIMUM_STATE_DUMP_INTERVAL"
    have "reschedule_dump_state now msg s = Inr s"
      using assms le by (rule reschedule_unchanged)
    moreover have "dump_next_run (reschedule_dump_state now msg s) = Some t"
      using nr le by (simp add: min_def)
    ultimately show "reschedule_dump_state now msg s = Inr s
          \<and> dump_next_run (reschedule_dump_state now msg s) = Some t"
      by (rule conjI)
  qed
  have c: "\<exists>t'. dump_next_run (reschedule_dump_state now msg s) = Some t'
              \<and> t' \<le> t
              \<and> (t' \<noteq> t \<longrightarrow> now + MINIMUM_STATE_DUMP_INTERVAL \<le> t')"
    using nr by (simp add: min_def)
  from a b c show ?thesis by blast
qed

theorem reschedule_dump_state_debounce_witness:
  "dump_next_run (reschedule_dump_state 0 ''x'' (dump_scheduled_at 60000000)) = Some 10000000
   \<and> reschedule_dump_state 55000000 ''x'' (dump_scheduled_at 60000000)
       = Inr (dump_scheduled_at 60000000)"
proof -
  have j: "jobs (dump_scheduled_at 60000000) STATE_DUMP_JOB_ID
             = Some \<lparr>next_run_time = Some 60000000\<rparr>"
    by (simp add: dump_scheduled_at_def)
  have t: "next_run_time \<lparr>next_run_time = Some 60000000\<rparr> = Some 60000000"
    by simp
  have i: "MINIMUM_STATE_DUMP_INTERVAL = 10000000"
    by (simp add: MINIMUM_STATE_DUMP_INTERVAL_def timedelta_seconds_def)
  show ?thesis
    using reschedule_dump_state_debounce [OF j t, of 0 "''x''"]
      reschedule_dump_state_debounce [OF j t, of 55000000 "''x''"]
    by (simp add: i)
qed

text \<open>
  C2. With the dump job scheduled at t = 60 s, three notifications at t = 0 s, 2 s and
  4 s, of either kind, leave the next run time at t = 10 s: the first one pulls it to
  10 s, the other two change nothing.
\<close>

theorem three_notifications_scenario:
  "dump_next_run (notify_all [(timedelta_seconds 0, n1)] (dump_scheduled_at (timedelta_seconds 60)))
     = Some (timedelta_seconds 10)
   \<and> dump_next_run (notify_all
        [(timedelta_seconds 0, n1), (timedelta_seconds 2, n2), (timedelta_seconds 4, n3)]
        (dump_scheduled_at (timedelta_seconds 60)))
     = Some (timedelta_seconds 10)
   \<and> notify_all
        [(timedelta_seconds 0, n1), (timedelta_seconds 2, n2), (timedelta_seconds 4, n3)]
        (dump_scheduled_at (timedelta_seconds 60))
     = notify_all [(timedelta_seconds 0, n1)] (dump_scheduled_at (timedelta_seconds 60))"
  by (cases n1; cases n2; cases n3)
     (simp_all add: reschedule_dump_state_on_commit_def reschedule_dump_state_on_pm_change_def
        reschedule_dump_state_def get_job_def modify_def dump_next_run_def dump_scheduled_at_def
        MINIMUM_STATE_DUMP_INTERVAL_def timedelta_seconds_def Let_def)


section \<open>Properties of loading the configuration\<close>

text \<open>
  C4, as stated, fails: with no \<open>--config-file\<close> argument and no default file,
  \<open>load_config\<close> logs nothing and returns \<open>None\<close>, and \<open>main\<close> goes on with the
  configuration already in \<open>state.config\<close>.
\<close>

theorem load_config_missing_default_counterexample:
  "example_read (or_default (config_file no_args) DEFAULT_CONFIG_FILE) (polldevs no_args) = OSError
   \<and> load_config example_read no_args [] = ([], Return None)
   \<and> \<not> fatal_exit [] (load_config example_read no_args [])
   \<and> main_config example_read no_args ''built-in defaults'' [] = ([], Return ''built-in defaults'')"
  by (simp add: load_config_def main_config_def example_read_def no_args_def fatal_exit_def
        or_default_def DEFAULT_CONFIG_FILE_def)

text \<open>
  C4, amended. Loading the configuration is fatal (one FATAL log record, then exit with
  code 1) when the file cannot be read and a non-empty \<open>--config-file\<close> argument was
  given, when the file is not valid TOML, and when its contents fail validation. When the
  file cannot be read and no \<open>--config-file\<close> argument was given, \<open>load_config\<close> logs
  nothing and returns \<open>None\<close>, and the configuration in \<open>state.config\<close> stays in place.
\<close>

theorem load_config_fatal:
  "(read_configuration (or_default (config_file a) DEFAULT_CONFIG_FILE) (polldevs a) = OSError
      \<and> truthy_str (config_file a) \<longrightarrow>
        fatal_exit lg (load_config read_configuration a lg)
        \<and> fatal_exit lg (main_config read_configuration a state_config lg))
   \<and> (read_configuration (or_default (config_file a) DEFAULT_CONFIG_FILE) (polldevs a)
        = InvalidConfigurationError \<longrightarrow>
        fatal_exit lg (load_config read_configuration a lg)
        \<and> fatal_exit lg (main_config read_configuration a state_config lg))
   \<and> (read_configuration (or_default (config_file a) DEFAULT_CONFIG_FILE) (polldevs a)
        = ValidationError e \<longrightarrow>
        fatal_exit lg (load_config read_configuration a lg)
        \<and> fatal_exit lg (main_config read_configuration a state_config lg))
   \<and> (read_configuration (or_default (config_file a) DEFAULT_CONFIG_FILE) (polldevs a) = OSError
      \<and> \<not> truthy_str (config_file a) \<longrightarrow>
        load_config read_configuration a lg = (lg, Return None)
        \<and> main_config read_configuration a state_config lg = (lg, Return state_config))"
  by (auto simp add: load_config_def main_config_def fatal_exit_def split: option.splits)

theorem load_config_fatal_witness:
  "fatal_exit [] (load_config example_read (with_config_file ''absent.toml'') [])
   \<and> fatal_exit [] (load_config example_read (with_config_file ''broken.toml'') [])
   \<and> fatal_exit [] (load_config example_read (with_config_file ''wrong.toml'') [])
   \<and> load_config example_read no_args [] = ([], Return None)
   \<and> main_config example_read no_args ''built-in defaults'' [] = ([], Return ''built-in defaults'')"
proof -
  have r1: "example_read (or_default (config_file (with_config_file ''absent.toml''))
              DEFAULT_CONFIG_FILE) (polldevs (with_config_file ''absent.toml'')) = OSError
            \<and> truthy_str (config_file (with_config_file ''absent.toml''))"
    by (simp add: example_read_def with_config_file_def or_default_def)
  have r2: "example_read (or_default (config_file (with_config_file ''broken.toml''))
              DEFAULT_CONFIG_FILE) (polldevs (with_config_file ''broken.toml''))
            = InvalidConfigurationError"
    by (simp add: example_read_def with_config_file_def or_default_def)
  have r3: "example_read (or_default (config_file (with_config_file ''wrong.toml''))
              DEFAULT_CONFIG_FILE) (polldevs (with_config_file ''wrong.toml''))
            = ValidationError ''1 validation error for Configuration''"
    by (simp add: example_read_def with_config_file_def or_default_def)
  have r4: "example_read (or_default (config_file no_args) DEFAULT_CONFIG_FILE) (polldevs no_args)
            = OSError \<and> \<not> truthy_str (config_file no_args)"
    by (simp add: example_read_def no_args_def or_default_def DEFAULT_CONFIG_FILE_def)
  have f1: "fatal_exit [] (load_config example_read (with_config_file ''absent.toml'') [])"
    by (rule load_config_fatal [of example_read "with_config_file ''absent.toml''" "[]"
          "''built-in defaults''" "''''", THEN conjunct1, THEN mp, OF r1, THEN conjunct1])
  have f2: "fatal_exit [] (load_config example_read (with_config_file ''broken.toml'') [])"
    by (rule load_config_fatal [of example_read "with_config_file ''broken.toml''" "[]"
          "''built-in defaults''" "''''", THEN conjunct2, THEN conjunct1, THEN mp, OF r2,
          THEN conjunct1])
  have f3: "fatal_exit [] (load_config example_read (with_config_file ''wrong.toml'') [])"
    by (rule load_config_fatal [of example_read "with_config_file ''wrong.toml''" "[]"
          "''built-in defaults''" "''1 validation error for Configuration''",
          THEN conjunct2, THEN conjunct2, THEN conjunct1, THEN mp, OF r3, THEN conjunct1])
  have f4: "load_config example_read no_args [] = ([], Return None)
            \<and> main_config example_read no_args ''built-in defaults'' []
                = ([], Return ''built-in defaults'')"
    by (rule load_config_fatal [of example_read no_args "[]" "''built-in defaults''" "''''",
          THEN conjunct2, THEN conjunct2, THEN conjunct2, THEN mp, OF r4])
  show ?thesis
    using f1 f2 f3 f4 by (intro conjI) (assumption | erule conjunct1 | erule conjunct2)+
qed

section \<open>Properties of switching to another user\<close>

text \<open>
  C5. For a username that \<open>getpwnam\<close> does not know, \<open>switch_to_user\<close> logs the failure
  and returns \<open>False\<close>; it issues no system call and leaves uid, gid and supplementary
  groups as they were.
\<close>

theorem switch_to_user_unknown_user:
  assumes "getpwnam env username = None"
  shows "fst (switch_to_user env username p) = False
       \<and> syscalls (snd (switch_to_user env username p)) = syscalls p
       \<and> uid (snd (switch_to_user env username p)) = uid p
       \<and> gid (snd (switch_to_user env username p)) = gid p
       \<and> groups (snd (switch_to_user env username p)) = groups p
       \<and> proc_log (snd (switch_to_user env username p))
           = proc_log p @ [Log ERROR ''Could not find user %s'' [Str username]]"
  using assms by (simp add: switch_to_user_def log_to_def Let_def)

theorem switch_to_user_unknown_user_witness:
  "fst (switch_to_user example_env ''nosuchuser'' root_process) = False
   \<and> syscalls (snd (switch_to_user example_env ''nosuchuser'' root_process)) = []
   \<and> uid (snd (switch_to_user example_env ''nosuchuser'' root_process)) = 0
   \<and> gid (snd (switch_to_user example_env ''nosuchuser'' root_process)) = 0
   \<and> groups (snd (switch_to_user example_env ''nosuchuser'' root_process)) = [0]"
proof -
  have n: "getpwnam example_env ''nosuchuser'' = None"
    by (simp add: example_env_def)
  show ?thesis
    using switch_to_user_unknown_user [OF n, of root_process]
    by (simp add: root_process_def)
qed




section \<open>Properties of the engine cache\<close>

lemma get_engine_allocated: "allocated m \<Longrightarrow> allocated (snd (get_engine tid m))"
  by (auto simp add: allocated_def get_engine_def SnmpEngine_def less_Suc_eq split: option.splits)

lemma get_engine_unshared:
  "allocated m \<Longrightarrow> unshared m \<Longrightarrow> unshared (snd (get_engine tid m))"
  unfolding allocated_def unshared_def
  by (cases "snmp_engine m tid") (auto simp add: get_engine_def SnmpEngine_def split: if_splits)

lemma after_calls_invariant:
  "allocated m \<Longrightarrow> unshared m \<Longrightarrow>
     allocated (after_calls tids m) \<and> unshared (after_calls tids m)"
proof (induction tids arbitrary: m)
  case Nil
  then show ?case by simp
next
  case (Cons t tids)
  then show ?case
    using get_engine_allocated get_engine_unshared by simp
qed

lemma initial_module_invariant: "allocated initial_module \<and> unshared initial_module"
  by (simp add: allocated_def unshared_def initial_module_def)

lemma get_engine_stored:
  "snmp_engine (snd (get_engine tid m)) tid = Some (fst (get_engine tid m))"
  by (simp add: get_engine_def SnmpEngine_def split: option.splits)

lemma get_engine_again:
  "get_engine tid (snd (get_engine tid m)) = (fst (get_engine tid m), snd (get_engine tid m))"
  using get_engine_stored [of tid m]
  by (simp add: get_engine_def [of tid "snd (get_engine tid m)"])

lemma get_engine_keeps:
  "snmp_engine m t = Some e \<Longrightarrow> snmp_engine (snd (get_engine tid m)) t = Some e"
  by (auto simp add: get_engine_def SnmpEngine_def split: option.splits)

lemma get_engine_log: "snmp_log (snd (get_engine tid m)) = snmp_log m"
  by (simp add: get_engine_def SnmpEngine_def split: option.splits)

lemma get_engine_hit: "snmp_engine m tid = Some e \<Longrightarrow> get_engine tid m = (e, m)"
  by (simp add: get_engine_def)

lemma get_engine_miss:
  "snmp_engine m tid = None \<Longrightarrow>
     fst (get_engine tid m) = constructed m
     \<and> constructed (snd (get_engine tid m)) = Suc (constructed m)"
  by (simp add: get_engine_def SnmpEngine_def)

lemma get_engine_others:
  "t \<noteq> tid \<Longrightarrow> snmp_engine (snd (get_engine tid m)) t = snmp_engine m t"
  by (simp add: get_engine_def SnmpEngine_def split: option.splits)

lemma after_calls_keeps:
  "snmp_engine m t = Some e \<Longrightarrow> snmp_engine (after_calls tids m) t = Some e"
proof (induction tids arbitrary: m)
  case Nil
  then show ?case by simp
next
  case (Cons a tids)
  from Cons.prems have "snmp_engine (snd (get_engine a m)) t = Some e"
    by (rule get_engine_keeps)
  then show ?case
    using Cons.IH by simp
qed

text \<open>
  C6. In every module state reached from the initial one by calls of \<open>_get_engine\<close>: the
  engine a call returns is the one stored for the calling thread; when one is already
  stored it is returned and the state is left as it is (nothing is constructed), otherwise
  exactly one new engine is constructed, stored for no thread before; a call leaves the
  engines of all other threads in place; a later call from the same thread, whatever calls
  other threads make in between, returns the same engine and constructs nothing; a call
  from another thread returns a different engine; and no engine is stored for two
  different threads.
\<close>

theorem get_engine_per_thread:
  "get_engine tid (snd (get_engine tid (after_calls tids initial_module)))
     = (fst (get_engine tid (after_calls tids initial_module)),
        snd (get_engine tid (after_calls tids initial_module)))
   \<and> (tid \<noteq> tid' \<longrightarrow>
        fst (get_engine tid' (snd (get_engine tid (after_calls tids initial_module))))
          \<noteq> fst (get_engine tid (after_calls tids initial_module)))
   \<and> (tid \<noteq> tid' \<and> snmp_engine (after_calls tids initial_module) tid = Some e \<longrightarrow>
        snmp_engine (after_calls tids initial_module) tid' \<noteq> Some e)
   \<and> snmp_engine (snd (get_engine tid (after_calls tids initial_module))) tid
        = Some (fst (get_engine tid (after_calls tids initial_module)))
   \<and> (snmp_engine (after_calls tids initial_module) tid = Some e0 \<longrightarrow>
        get_engine tid (after_calls tids initial_module) = (e0, after_calls tids initial_module))
   \<and> (snmp_engine (after_calls tids initial_module) tid = None \<longrightarrow>
        fst (get_engine tid (after_calls tids initial_module))
          = constructed (after_calls tids initial_module)
        \<and> constructed (snd (get_engine tid (after_calls tids initial_module)))
          = Suc (constructed (after_calls tids initial_module))
        \<and> snmp_engine (after_calls tids initial_module) t
          \<noteq> Some (fst (get_engine tid (after_calls tids initial_module))))
   \<and> (t \<noteq> tid \<longrightarrow>
        snmp_engine (snd (get_engine tid (after_calls tids initial_module))) t
          = snmp_engine (after_calls tids initial_module) t)
   \<and> get_engine tid (after_calls tids' (snd (get_engine tid (after_calls tids initial_module))))
        = (fst (get_engine tid (after_calls tids initial_module)),
           after_calls tids' (snd (get_engine tid (after_calls tids initial_module))))
   \<and> (tid \<noteq> tid' \<longrightarrow>
        fst (get_engine tid'
               (after_calls tids' (snd (get_engine tid (after_calls tids initial_module)))))
          \<noteq> fst (get_engine tid (after_calls tids initial_module)))"
proof -
  let ?m = "after_calls tids initial_module"
  let ?e = "fst (get_engine tid ?m)"
  let ?m1 = "snd (get_engine tid ?m)"
  let ?m2 = "snd (get_engine tid' ?m1)"
  let ?m3 = "after_calls tids' ?m1"
  let ?m4 = "snd (get_engine tid' ?m3)"
  have inv: "allocated ?m \<and> unshared ?m"
    using initial_module_invariant after_calls_invariant by blast
  have inv1: "allocated ?m1 \<and> unshared ?m1"
    using inv get_engine_allocated get_engine_unshared by blast
  have inv2: "unshared ?m2"
    using inv1 get_engine_unshared by blast
  have inv3: "allocated ?m3 \<and> unshared ?m3"
    using inv1 after_calls_invariant by blast
  have inv4: "unshared ?m4"
    using inv3 get_engine_unshared by blast
  have stored: "snmp_engine ?m1 tid = Some ?e"
    by (rule get_engine_stored)
  have a: "get_engine tid ?m1 = (?e, ?m1)"
    by (rule get_engine_again)
  have b: "tid \<noteq> tid' \<longrightarrow> fst (get_engine tid' ?m1) \<noteq> ?e"
  proof
    assume ne: "tid \<noteq> tid'"
    have s1: "snmp_engine ?m2 tid = Some ?e"
      using stored by (rule get_engine_keeps)
    have s2: "snmp_engine ?m2 tid' = Some (fst (get_engine tid' ?m1))"
      by (rule get_engine_stored)
    show "fst (get_engine tid' ?m1) \<noteq> ?e"
    proof
      assume "fst (get_engine tid' ?m1) = ?e"
      with s1 s2 inv2 have "tid = tid'" unfolding unshared_def by metis
      with ne show False by simp
    qed
  qed
  have c: "tid \<noteq> tid' \<and> snmp_engine ?m tid = Some e \<longrightarrow> snmp_engine ?m tid' \<noteq> Some e"
    using inv unfolding unshared_def by blast
  have hit: "snmp_engine ?m tid = Some e0 \<longrightarrow> get_engine tid ?m = (e0, ?m)"
    using get_engine_hit by blast
  have miss: "snmp_engine ?m tid = None \<longrightarrow>
        ?e = constructed ?m \<and> constructed ?m1 = Suc (constructed ?m)
        \<and> snmp_engine ?m t \<noteq> Some ?e"
  proof
    assume none: "snmp_engine ?m tid = None"
    have m: "?e = constructed ?m \<and> constructed ?m1 = Suc (constructed ?m)"
      using none by (rule get_engine_miss)
    have "snmp_engine ?m t \<noteq> Some (constructed ?m)"
    proof
      assume "snmp_engine ?m t = Some (constructed ?m)"
      with inv have "constructed ?m < constructed ?m" unfolding allocated_def by blast
      then show False by simp
    qed
    with m show "?e = constructed ?m \<and> constructed ?m1 = Suc (constructed ?m)
        \<and> snmp_engine ?m t \<noteq> Some ?e"
      by simp
  qed
  have others: "t \<noteq> tid \<longrightarrow> snmp_engine ?m1 t = snmp_engine ?m t"
    using get_engine_others by blast
  have kept: "snmp_engine ?m3 tid = Some ?e"
    using stored by (rule after_calls_keeps)
  have later: "get_engine tid ?m3 = (?e, ?m3)"
    using kept by (rule get_engine_hit)
  have apart: "tid \<noteq> tid' \<longrightarrow> fst (get_engine tid' ?m3) \<noteq> ?e"
  proof
    assume ne: "tid \<noteq> tid'"
    have s1: "snmp_engine ?m4 tid = Some ?e"
      using kept by (rule get_engine_keeps)
    have s2: "snmp_engine ?m4 tid' = Some (fst (get_engine tid' ?m3))"
      by (rule get_engine_stored)
    show "fst (get_engine tid' ?m3) \<noteq> ?e"
    proof
      assume "fst (get_engine tid' ?m3) = ?e"
      with s1 s2 inv4 have "tid = tid'" unfolding unshared_def by metis
      with ne show False by simp
    qed
  qed
  from a b c stored hit miss others later apart show ?thesis
    by (intro conjI)
qed

theorem get_engine_per_thread_witness:
  "get_engine 7 (after_calls [3, 7, 3] initial_module) = (1, after_calls [3, 7, 3] initial_module)
   \<and> fst (get_engine 9 (after_calls [3, 7, 3] initial_module)) = 2
   \<and> constructed (snd (get_engine 9 (after_calls [3, 7, 3] initial_module))) = 3
   \<and> snmp_engine (snd (get_engine 7 (after_calls [3, 7, 3] initial_module))) 3
       = snmp_engine (after_calls [3, 7, 3] initial_module) 3
   \<and> get_engine 7 (after_calls [9, 3] (snd (get_engine 7 (after_calls [3, 7, 3] initial_module))))
       = (fst (get_engine 7 (after_calls [3, 7, 3] initial_module)),
          after_calls [9, 3] (snd (get_engine 7 (after_calls [3, 7, 3] initial_module))))
   \<and> fst (get_engine 9 (after_calls [9, 3] (snd (get_engine 7 (after_calls [3, 7, 3] initial_module)))))
       \<noteq> fst (get_engine 7 (after_calls [3, 7, 3] initial_module))
   \<and> fst (get_engine 9 (snd (get_engine 7 (after_calls [3, 7, 3] initial_module))))
       \<noteq> fst (get_engine 7 (after_calls [3, 7, 3] initial_module))
   \<and> snmp_engine (after_calls [3, 7, 3] initial_module) 3 \<noteq> Some 1"
proof -
  have ne: "(7::nat) \<noteq> 9" and ne3: "(3::nat) \<noteq> 7"
    by simp_all
  have st: "snmp_engine (after_calls [3, 7, 3] initial_module) 7 = Some 1"
    by (simp add: get_engine_def SnmpEngine_def initial_module_def)
  have none: "snmp_engine (after_calls [3, 7, 3] initial_module) 9 = None"
    by (simp add: get_engine_def SnmpEngine_def initial_module_def)
  have k: "constructed (after_calls [3, 7, 3] initial_module) = 2"
    by (simp add: get_engine_def SnmpEngine_def initial_module_def)
  have ne': "(7::nat) \<noteq> 3 \<and> snmp_engine (after_calls [3, 7, 3] initial_module) 7 = Some 1"
    using st by simp
  note T = get_engine_per_thread [where tid = 7 and tids = "[3, 7, 3]" and tid' = 9
      and tids' = "[9, 3]" and e = 1 and e0 = 1 and t = 3]
  note hit = T [THEN conjunct2, THEN conjunct2, THEN conjunct2, THEN conjunct2, THEN conjunct1,
      THEN mp, OF st]
  note miss = get_engine_per_thread [where tid = 9 and tids = "[3, 7, 3]" and tid' = 7
      and tids' = "[]" and e = 1 and e0 = 1 and t = 3, THEN conjunct2, THEN conjunct2,
      THEN conjunct2, THEN conjunct2, THEN conjunct2, THEN conjunct1, THEN mp, OF none]
  note others = T [THEN conjunct2, THEN conjunct2, THEN conjunct2, THEN conjunct2,
      THEN conjunct2, THEN conjunct2, THEN conjunct1, THEN mp, OF ne3]
  note later = T [THEN conjunct2, THEN conjunct2, THEN conjunct2, THEN conjunct2,
      THEN conjunct2, THEN conjunct2, THEN conjunct2, THEN conjunct1]
  note apart = T [THEN conjunct2, THEN conjunct2, THEN conjunct2, THEN conjunct2,
      THEN conjunct2, THEN conjunct2, THEN conjunct2, THEN conjunct2, THEN mp, OF ne]
  note next_call = T [THEN conjunct2, THEN conjunct1, THEN mp, OF ne]
  note unshared = get_engine_per_thread [where tid = 7 and tids = "[3, 7, 3]" and tid' = 3
      and tids' = "[]" and e = 1 and e0 = 1 and t = 3, THEN conjunct2, THEN conjunct2,
      THEN conjunct1, THEN mp, OF ne']
  have m: "fst (get_engine 9 (after_calls [3, 7, 3] initial_module)) = 2
           \<and> constructed (snd (get_engine 9 (after_calls [3, 7, 3] initial_module))) = 3"
    using miss k by (simp del: after_calls.simps)
  from hit m others later apart next_call unshared show ?thesis
    by (intro conjI) (erule conjunct1 | erule conjunct2 | assumption)+
qed

section \<open>Properties of the SNMP session\<close>

text \<open>
  C7. \<open>mp_model\<close> is 1 (SNMP v2c, the extended variant) exactly when the device's
  \<open>hcounters\<close> flag is set and 0 (SNMP v1, the legacy variant) exactly when it is not; it
  agrees with the specification's selector, and two sessions whose devices have the same
  flag get the same value whatever else differs.
\<close>

theorem mp_model_selects_version:
  "(mp_model self = 1 \<longleftrightarrow> hcounters (device self))
   \<and> (mp_model self = 0 \<longleftrightarrow> \<not> hcounters (device self))
   \<and> version_of_mpModel (mp_model self) = Some (select_version_spec (hcounters (device self)))
   \<and> (hcounters (device self) = hcounters (device other) \<longrightarrow> mp_model self = mp_model other)"
  by (simp add: mp_model_def version_of_mpModel_def select_version_spec_def)

theorem mp_model_selects_version_witness:
  "mp_model \<lparr>device = example_device True ''10.0.0.1''\<rparr> = 1
   \<and> mp_model \<lparr>device = example_device False ''10.0.0.1''\<rparr> = 0
   \<and> mp_model \<lparr>device = example_device True ''10.0.0.1''\<rparr>
       = mp_model \<lparr>device = example_device True ''10.0.0.2''\<rparr>"
  using mp_model_selects_version [of "\<lparr>device = example_device True ''10.0.0.1''\<rparr>"
      "\<lparr>device = example_device True ''10.0.0.2''\<rparr>"]
    mp_model_selects_version [of "\<lparr>device = example_device False ''10.0.0.1''\<rparr>"
      "\<lparr>device = example_device False ''10.0.0.1''\<rparr>"]
  by (simp add: example_device_def)

text \<open>
  C8. A response with an error status and error index 2 to the one-object query,
  whatever variable bindings it carries (two, for instance), makes \<open>SNMP.get\<close> raise
  IndexError: nothing is returned and nothing is logged. With error index 1 the queried
  object is logged, with error index 0 the text \<open>?\<close>, and the method returns nothing.
\<close>

theorem get_error_index_out_of_range:
  "snd (get (gen_err_at 2 vbs) prettyPrint tid self object m) = Inl IndexError
   \<and> snmp_log (fst (get (gen_err_at 2 vbs) prettyPrint tid self object m)) = snmp_log m"
  by (simp add: get_def gen_err_at_def culprit_def py_index_def get_engine_log
        Let_def case_prod_beta)

lemma get_error_index_in_range:
  "get (gen_err_at 1 vbs) prettyPrint tid self object m
     = ((snd (get_engine tid m))\<lparr>snmp_log := snmp_log m @
          [Log ERROR ''%s at %s'' [Str (prettyPrint 5), Obj object]]\<rparr>, Inr None)
   \<and> get (gen_err_at 0 vbs) prettyPrint tid self object m
     = ((snd (get_engine tid m))\<lparr>snmp_log := snmp_log m @
          [Log ERROR ''%s at %s'' [Str (prettyPrint 5), Str ''?'']]\<rparr>, Inr None)"
  by (simp add: get_def gen_err_at_def culprit_def py_index_def get_engine_log
        Let_def case_prod_beta)

lemma get_error_index_two_bindings:
  "snd (get (gen_err_at 2 [([OStr ''SNMPv2-MIB'', OStr ''sysUpTime'', OInt 0], 0::int),
                            ([OStr ''SNMPv2-MIB'', OStr ''sysName'', OInt 0], 0)])
          (\<lambda>n. ''genErr'') 0 \<lparr>device = example_device False ''10.0.0.1''\<rparr>
          [OStr ''SNMPv2-MIB'', OStr ''sysUpTime'', OInt 0] initial_module) = Inl IndexError"
  by (simp add: get_def gen_err_at_def culprit_def py_index_def Let_def case_prod_beta)

text \<open>
  C10. When the response has no error indication, error status 0 and no variable
  bindings, \<open>SNMP.get\<close> raises nothing and returns \<open>None\<close>, and logs nothing.
\<close>

theorem get_no_var_binds:
  assumes "getCmd (fst (get_engine tid m)) (community (device self), mp_model self)
             (address (device self), port (device self)) [object] = r"
    and "error_indication r = None" and "error_status r = 0" and "var_binds r = []"
  shows "snd (get getCmd prettyPrint tid self object m) = Inr None
       \<and> snmp_log (fst (get getCmd prettyPrint tid self object m)) = snmp_log m"
  using assms by (simp add: get_def Let_def case_prod_beta get_engine_log)

theorem get_no_var_binds_witness:
  "snd (get empty_response (\<lambda>n. ''noError'') 0 \<lparr>device = example_device False ''10.0.0.1''\<rparr>
          [OStr ''SNMPv2-MIB'', OStr ''sysUpTime'', OInt 0] initial_module) = Inr None"
  using get_no_var_binds [of empty_response 0 initial_module
      "\<lparr>device = example_device False ''10.0.0.1''\<rparr>"
      "[OStr ''SNMPv2-MIB'', OStr ''sysUpTime'', OInt 0]"
      "\<lparr>error_indication = None, error_status = 0, error_index = 0, var_binds = []\<rparr>"
      "\<lambda>n. ''noError''"]
  by (simp add: empty_response_def)

end
